theory Spec2Isabelle
  imports Complex_Main "HOL-Library.Sublist"
begin

section \<open>Python values handed to an accessor\<close>

text \<open>
  An accessor of the driver receives any Python object as its candidate. The model keeps
  the kinds the validators tell apart with \<^verbatim>\<open>isinstance\<close>: \<^verbatim>\<open>None\<close>, \<^verbatim>\<open>bool\<close> (a subclass
  of \<^verbatim>\<open>int\<close>), \<^verbatim>\<open>int\<close>, \<^verbatim>\<open>float\<close>, \<^verbatim>\<open>str\<close>, and every other object (a list, say).

  A float is carried by its exact value (a double is a rational number, an infinity or
  a NaN) together with the text \<^verbatim>\<open>str()\<close> gives for it: the shortest round-trip rendering
  is not computed here. An object of another kind is carried by its \<^verbatim>\<open>str()\<close> text alone.
  Strings are ASCII.
\<close>

datatype pyfloat = Finite rat | Infinity bool | NaN

datatype pyval =
    PNone
  | PBool bool
  | PInt int
  | PFloat pyfloat string
  | PStr string
  | PObj string

text \<open>Exceptions that are raised, as opposed to the error objects a validator returns.\<close>

datatype raised = RaisedTypeError | RaisedOverflowError

text \<open>
  A validator returns either the canonical string or an instance of \<^verbatim>\<open>ValueError\<close> or
  \<^verbatim>\<open>TypeError\<close> (returned, not raised). The message text of the instance is not modelled.
\<close>

datatype pyerror = ValueError | TypeError

datatype verdict = Accepted string | Rejected pyerror

text \<open>A call of a validator accepts the candidate when it returns a string.\<close>

fun is_accepted :: "raised + verdict \<Rightarrow> bool" where
  "is_accepted (Inr (Accepted s)) = True"
| "is_accepted r = False"

subsection \<open>\<^verbatim>\<open>str()\<close> of a candidate\<close>

definition digit_char :: "nat \<Rightarrow> char" where
  "digit_char d = char_of (48 + d)"

fun str_nat :: "nat \<Rightarrow> string" where
  "str_nat n = (if n < 10 then [digit_char n] else str_nat (n div 10) @ [digit_char (n mod 10)])"

declare str_nat.simps [simp del]

definition str_int :: "int \<Rightarrow> string" where
  "str_int i = (if i < 0 then CHR ''-'' # str_nat (nat (- i)) else str_nat (nat i))"

fun py_str :: "pyval \<Rightarrow> string" where
  "py_str PNone = ''None''"
| "py_str (PBool b) = (if b then ''True'' else ''False'')"
| "py_str (PInt i) = str_int i"
| "py_str (PFloat f s) = s"
| "py_str (PStr s) = s"
| "py_str (PObj s) = s"

subsection \<open>\<^verbatim>\<open>str.lower()\<close>, \<^verbatim>\<open>str.upper()\<close>, \<^verbatim>\<open>x in y\<close> on strings, \<^verbatim>\<open>str()\<close> of a tuple of strings\<close>

definition chr_lower :: "char \<Rightarrow> char" where
  "chr_lower c =
     (case map_of (zip ''ABCDEFGHIJKLMNOPQRSTUVWXYZ'' ''abcdefghijklmnopqrstuvwxyz'') c of
        Some d \<Rightarrow> d
      | None \<Rightarrow> c)"

definition chr_upper :: "char \<Rightarrow> char" where
  "chr_upper c =
     (case map_of (zip ''abcdefghijklmnopqrstuvwxyz'' ''ABCDEFGHIJKLMNOPQRSTUVWXYZ'') c of
        Some d \<Rightarrow> d
      | None \<Rightarrow> c)"

definition lower :: "string \<Rightarrow> string" where
  "lower s = map chr_lower s"

definition upper :: "string \<Rightarrow> string" where
  "upper s = map chr_upper s"

text \<open>\<^verbatim>\<open>x in y\<close> for two strings: \<open>x\<close> occurs in \<open>y\<close> as a contiguous run of characters.\<close>

fun py_in_str :: "string \<Rightarrow> string \<Rightarrow> bool" where
  "py_in_str x [] = (x = [])"
| "py_in_str x (c # cs) = (prefix x (c # cs) \<or> py_in_str x cs)"

text \<open>
  \<^verbatim>\<open>str(validation_set)\<close> for a tuple of strings: the \<^verbatim>\<open>repr\<close> of each element, joined by a
  comma and a space, in parentheses, with a trailing comma for a one-element tuple. The
  tokens of this driver hold letters only, so the \<^verbatim>\<open>repr\<close> of an element is the element
  in single quotes; escaping is not modelled.
\<close>

definition repr_str :: "string \<Rightarrow> string" where
  "repr_str s = CHR 0x27 # s @ [CHR 0x27]"

fun join_comma :: "string list \<Rightarrow> string" where
  "join_comma [] = []"
| "join_comma [s] = s"
| "join_comma (s # t # ts) = s @ '', '' @ join_comma (t # ts)"

definition str_of_tuple :: "string list \<Rightarrow> string" where
  "str_of_tuple ts =
     (case ts of
        [t] \<Rightarrow> ''('' @ repr_str t @ '',)''
      | _ \<Rightarrow> ''('' @ join_comma (map repr_str ts) @ '')'')"

subsection \<open>\<^verbatim>\<open>isinstance\<close>, \<^verbatim>\<open>float()\<close> and \<^verbatim>\<open>round()\<close>\<close>

fun is_int :: "pyval \<Rightarrow> bool" where
  "is_int (PBool b) = True"
| "is_int (PInt i) = True"
| "is_int v = False"

fun is_float_or_int :: "pyval \<Rightarrow> bool" where
  "is_float_or_int (PFloat f s) = True"
| "is_float_or_int v = is_int v"

text \<open>The integer an \<^verbatim>\<open>int\<close> (or \<^verbatim>\<open>bool\<close>) candidate stands for; used after \<open>is_int\<close> only.\<close>

fun int_value :: "pyval \<Rightarrow> int" where
  "int_value (PBool b) = (if b then 1 else 0)"
| "int_value (PInt i) = i"
| "int_value v = 0"

text \<open>
  \<^verbatim>\<open>float(value)\<close>: an \<^verbatim>\<open>int\<close> too large for a double raises \<^verbatim>\<open>OverflowError\<close> (the nearest
  double of \<open>i\<close> is infinite from \<open>2^1024 - 2^970\<close> on). Below that the model keeps the
  exact integer and does not round it to the nearest double. The validators call
  \<^verbatim>\<open>float()\<close> after an \<^verbatim>\<open>isinstance\<close> test only, so the last equation (a \<^verbatim>\<open>TypeError\<close>, as for
  \<^verbatim>\<open>None\<close> or a list) is never used by them.
\<close>

definition float_overflows :: "int \<Rightarrow> bool" where
  "float_overflows i = (2 ^ 1024 - 2 ^ 970 \<le> \<bar>i\<bar>)"

fun py_float :: "pyval \<Rightarrow> raised + pyfloat" where
  "py_float (PBool b) = Inr (Finite (if b then 1 else 0))"
| "py_float (PInt i) =
     (if float_overflows i then Inl RaisedOverflowError else Inr (Finite (of_int i)))"
| "py_float (PFloat f s) = Inr f"
| "py_float v = Inl RaisedTypeError"

text \<open>
  \<^verbatim>\<open>round(x, ndigits)\<close> of a float is the decimal with \<open>ndigits\<close> places nearest to the exact
  value of \<open>x\<close>, a tie going to the even last digit; infinities and NaN round to
  themselves. Python then takes the nearest double of that decimal, which the model does
  not; the bounds of the driver are decimals of at most \<open>ndigits\<close> places and at most five
  integer digits, where taking nearest doubles on both sides keeps every comparison.
\<close>

definition py_round :: "rat \<Rightarrow> nat \<Rightarrow> rat" where
  "py_round x ndigits =
     (let s = x * 10 ^ ndigits;
          f = \<lfloor>s\<rfloor>;
          d = s - of_int f
      in of_int (if d < 1 / 2 then f
                 else if 1 / 2 < d then f + 1
                 else if even f then f else f + 1) / 10 ^ ndigits)"

fun round_float :: "pyfloat \<Rightarrow> nat \<Rightarrow> pyfloat" where
  "round_float (Finite x) ndigits = Finite (py_round x ndigits)"
| "round_float (Infinity b) ndigits = Infinity b"
| "round_float NaN ndigits = NaN"

section \<open>Class \<^verbatim>\<open>Validate\<close>\<close>

text \<open>\<^verbatim>\<open>float_range\<close>: \<^verbatim>\<open>lambda x, y: y[0] <= x <= y[1]\<close>, with finite bounds.\<close>

fun float_range :: "pyfloat \<Rightarrow> rat \<times> rat \<Rightarrow> bool" where
  "float_range (Finite x) y = (fst y \<le> x \<and> x \<le> snd y)"
| "float_range (Infinity b) y = False"
| "float_range NaN y = False"

text \<open>\<^verbatim>\<open>int_range\<close>: \<^verbatim>\<open>lambda x, y: x in range(y[0], y[1] + 1)\<close>.\<close>

definition int_range :: "int \<Rightarrow> int \<times> int \<Rightarrow> bool" where
  "int_range x y = (fst y \<le> x \<and> x < snd y + 1)"

text \<open>
  \<^verbatim>\<open>find_element\<close>: \<^verbatim>\<open>lambda x, y: x in y\<close>. On a tuple of integers it is membership (a float
  equals an integer of the same value); on two strings it is \<open>py_in_str\<close>.
\<close>

definition find_element_int :: "int \<Rightarrow> int list \<Rightarrow> bool" where
  "find_element_int x y = (x \<in> set y)"

fun find_element_float :: "pyfloat \<Rightarrow> int list \<Rightarrow> bool" where
  "find_element_float (Finite x) y = (x \<in> of_int ` set y)"
| "find_element_float (Infinity b) y = False"
| "find_element_float NaN y = False"

definition float_rng_and_str_tuples ::
  "(rat \<times> rat) \<times> string list \<Rightarrow> pyval \<Rightarrow> nat \<Rightarrow> raised + verdict" where
  "float_rng_and_str_tuples validation_set value round_to =
     (if is_float_or_int value then
        (case py_float value of
           Inl e \<Rightarrow> Inl e
         | Inr f \<Rightarrow>
             (let val = round_float f round_to
              in if float_range val (fst validation_set) then Inr (Accepted (py_str value))
                 else Inr (Rejected ValueError)))
      else
        (case value of
           PStr s \<Rightarrow>
             (let val = lower s
              in if py_in_str val (lower (str_of_tuple (snd validation_set)))
                 then Inr (Accepted (upper val))
                 else Inr (Rejected ValueError))
         | _ \<Rightarrow> Inr (Rejected TypeError)))"

definition int_and_str_tuples ::
  "int list \<times> string list \<Rightarrow> pyval \<Rightarrow> raised + verdict" where
  "int_and_str_tuples validation_set value =
     (if is_int value then
        (case py_float value of
           Inl e \<Rightarrow> Inl e
         | Inr val \<Rightarrow>
             if find_element_float val (fst validation_set) then Inr (Accepted (py_str value))
             else Inr (Rejected ValueError))
      else
        (case value of
           PStr s \<Rightarrow>
             (let val = lower s
              in if py_in_str val (lower (str_of_tuple (snd validation_set)))
                 then Inr (Accepted (upper val))
                 else Inr (Rejected ValueError))
         | _ \<Rightarrow> Inr (Rejected TypeError)))"

definition float_rng_tuple :: "rat \<times> rat \<Rightarrow> pyval \<Rightarrow> nat \<Rightarrow> raised + verdict" where
  "float_rng_tuple validation_set value round_to =
     (if is_float_or_int value then
        (case py_float value of
           Inl e \<Rightarrow> Inl e
         | Inr f \<Rightarrow>
             (let val = round_float f round_to
              in if float_range val validation_set then Inr (Accepted (py_str value))
                 else Inr (Rejected ValueError)))
      else Inr (Rejected TypeError))"

definition str_tuple :: "string list \<Rightarrow> pyval \<Rightarrow> raised + verdict" where
  "str_tuple validation_set value =
     (case value of
        PStr s \<Rightarrow>
          (let val = lower s
           in if py_in_str val (lower (str_of_tuple validation_set))
              then Inr (Accepted (upper val))
              else Inr (Rejected ValueError))
      | _ \<Rightarrow> Inr (Rejected TypeError))"

definition int_tuple :: "int list \<Rightarrow> pyval \<Rightarrow> raised + verdict" where
  "int_tuple validation_set value =
     (if is_int value then
        (if find_element_int (int_value value) validation_set then Inr (Accepted (py_str value))
         else Inr (Rejected ValueError))
      else Inr (Rejected TypeError))"

definition int_rng_tuple :: "int \<times> int \<Rightarrow> pyval \<Rightarrow> raised + verdict" where
  "int_rng_tuple validation_set value =
     (if is_int value then
        (if int_range (int_value value) validation_set then Inr (Accepted (py_str value))
         else Inr (Rejected ValueError))
      else Inr (Rejected TypeError))"

section \<open>The instrument, the mirrors and the console\<close>

text \<open>
  The transport is the \<^verbatim>\<open>pyvisa\<close> resource \<^verbatim>\<open>self._bus\<close>: \<^verbatim>\<open>write(line)\<close> sends a line,
  \<^verbatim>\<open>query(line)\<close> sends a line and returns the instrument's answer. The model records the
  lines in the order they are sent; the instrument is any function from the lines sent
  so far and the query to the answer. Transport failures are outside the model.

  The mirrors are the dictionaries of the driver: the module-level
  \<^verbatim>\<open>global_input_values\<close>, which every mode reaches as \<^verbatim>\<open>self.values['input']\<close>, and one
  dictionary per mode (\<^verbatim>\<open>self._mode_cc\<close>, \<^verbatim>\<open>self._mode_cc_dyn\<close>, ...). What \<^verbatim>\<open>print\<close> writes is kept
  as the list of the error objects printed.
\<close>

datatype event = Write string | Query string

datatype mode =
    ModeCC | ModeCV | ModeCP | ModeCR | ModeLED
  | ModeDynamicCC | ModeDynamicCV | ModeDynamicCP | ModeDynamicCR
  | ModeList | ModeBattery | ModeOCP | ModeOPP | ModeProgram

datatype dict_id = Global_input_values | Mode_dict mode

record world =
  instrument :: "event list \<Rightarrow> string \<Rightarrow> string"
  trace :: "event list"
  mirrors :: "dict_id \<Rightarrow> string \<rightharpoonup> string"
  printed :: "pyerror list"

definition bus_write :: "string \<Rightarrow> world \<Rightarrow> world" where
  "bus_write line w = w\<lparr>trace := trace w @ [Write line]\<rparr>"

definition bus_query :: "string \<Rightarrow> world \<Rightarrow> string \<times> world" where
  "bus_query line w = (instrument w (trace w) line, w\<lparr>trace := trace w @ [Query line]\<rparr>)"

definition dict_set :: "dict_id \<Rightarrow> string \<Rightarrow> string \<Rightarrow> world \<Rightarrow> world" where
  "dict_set d k v w = w\<lparr>mirrors := (mirrors w)(d := (mirrors w d)(k \<mapsto> v))\<rparr>"

definition print_warning :: "pyerror \<Rightarrow> world \<Rightarrow> world" where
  "print_warning e w = w\<lparr>printed := printed w @ [e]\<rparr>"

fun is_write :: "event \<Rightarrow> bool" where
  "is_write (Write line) = True"
| "is_write (Query line) = False"

definition writes :: "event list \<Rightarrow> event list" where
  "writes evs = filter is_write evs"

section \<open>Classes \<^verbatim>\<open>ValidateInput\<close>, \<^verbatim>\<open>ValidateBattery\<close>, \<^verbatim>\<open>ValidateTest\<close>\<close>

text \<open>
  A validator is a bound method taking the candidate; some of them query the instrument,
  so each is a function of the candidate and the world. \<open>high_power\<close> is the field
  \<^verbatim>\<open>self._high_power\<close>, fixed when the validator object is built.
\<close>

type_synonym validator = "pyval \<Rightarrow> world \<Rightarrow> (raised + verdict) \<times> world"

text \<open>
  The tuple \<^verbatim>\<open>('MINimum', 'MAXimum', 'DEFault')\<close>, which each range validator writes out in
  its own \<^verbatim>\<open>validation_set\<close>.
\<close>

definition min_max_def_tokens :: "string list" where
  "min_max_def_tokens = [''MINimum'', ''MAXimum'', ''DEFault'']"

definition on_off :: "pyval \<Rightarrow> raised + verdict" where
  "on_off value = int_and_str_tuples ([0, 1], [''ON'', ''OFF'']) value"

definition mode_dynamic :: "pyval \<Rightarrow> raised + verdict" where
  "mode_dynamic value = str_tuple [''CURRent'', ''VOLTage'', ''POWer'', ''RESistance''] value"

definition mode_static :: "pyval \<Rightarrow> raised + verdict" where
  "mode_static value =
     str_tuple [''CURRent'', ''VOLTage'', ''POWer'', ''RESistance'', ''LED''] value"

definition current_range :: "pyval \<Rightarrow> raised + verdict" where
  "current_range value = int_tuple [5, 30] value"

definition voltage_range :: "pyval \<Rightarrow> raised + verdict" where
  "voltage_range value = int_tuple [36, 150] value"

definition resistance_range :: "pyval \<Rightarrow> raised + verdict" where
  "resistance_range value = str_tuple [''LOW'', ''MIDDLE'', ''HIGH'', ''UPPER''] value"

definition mode_transient :: "pyval \<Rightarrow> raised + verdict" where
  "mode_transient value = str_tuple [''CONTinuous'', ''PULSe'', ''TOGGle''] value"

definition pulse_width :: "pyval \<Rightarrow> raised + verdict" where
  "pulse_width value =
     float_rng_and_str_tuples ((2 / 100000, 999), min_max_def_tokens) value 6"

definition power :: "bool \<Rightarrow> pyval \<Rightarrow> raised + verdict" where
  "power high_power value =
     float_rng_and_str_tuples
       (if high_power then ((0, 300), min_max_def_tokens) else ((0, 200), min_max_def_tokens))
       value 2"

definition resistance :: "pyval \<Rightarrow> raised + verdict" where
  "resistance value =
     float_rng_and_str_tuples ((3 / 100, 10000), min_max_def_tokens) value 3"

definition voltage :: "pyval \<Rightarrow> raised + verdict" where
  "voltage value = float_rng_and_str_tuples ((0, 150), min_max_def_tokens) value 3"

definition current :: "pyval \<Rightarrow> raised + verdict" where
  "current value = float_rng_and_str_tuples ((0, 30), min_max_def_tokens) value 3"

definition slew :: "pyval \<Rightarrow> raised + verdict" where
  "slew value = float_rng_and_str_tuples ((1 / 1000, 5 / 2), min_max_def_tokens) value 3"

definition mode_battery :: "pyval \<Rightarrow> raised + verdict" where
  "mode_battery value = str_tuple [''CURRent'', ''VOLTage'', ''RESistance''] value"

text \<open>
  \<^verbatim>\<open>mode is 'CURRENT'\<close> compares object identity: \<open>mode\<close> is the string the transport has
  just built from the bytes it received, the other a literal of the module. CPython
  shares the empty string and the one-character strings; any longer answer is a fresh
  object and never the literal, whatever its text.
\<close>

definition is_literal :: "string \<Rightarrow> string \<Rightarrow> bool" where
  "is_literal answer literal = (answer = literal \<and> length literal \<le> 1)"

definition battery_level :: validator where
  "battery_level value w =
     (let (mode, w1) = bus_query '':BATT:MODE?'' w;
          level_values =
            (if is_literal mode ''CURRENT'' then (0, 30)
             else if is_literal mode ''VOLTAGE'' then (0, 150)
             else (3 / 100, 10000))
      in (float_rng_tuple level_values value 3, w1))"

definition capacity :: "pyval \<Rightarrow> raised + verdict" where
  "capacity value = int_rng_tuple (0, 999999) value"

definition list_levels :: "bool \<Rightarrow> validator" where
  "list_levels high_power value w =
     (let (mode, w1) = bus_query '':LIST:MODE?'' w;
          level_values =
            (if is_literal mode ''CURRENT'' then (0, 30)
             else if is_literal mode ''VOLTAGE'' then (0, 150)
             else if is_literal mode ''RESISTANCE'' then (3 / 100, 10000)
             else if high_power then (0, 300)
             else (0, 200))
      in (float_rng_tuple level_values value 3, w1))"

text \<open>
  In \<^verbatim>\<open>program_levels\<close> the second test is \<^verbatim>\<open>mode is 'VOLTAGE' or 'LED'\<close>, and the non-empty
  string \<^verbatim>\<open>'LED'\<close> counts as true: the branches after it are never taken.
\<close>

definition program_levels :: "bool \<Rightarrow> validator" where
  "program_levels high_power value w =
     (let (mode, w1) = bus_query '':PROG:MODE?'' w;
          level_values =
            (if is_literal mode ''CURRENT'' then (0, 30)
             else if is_literal mode ''VOLTAGE'' \<or> True then (0, 150)
             else if is_literal mode ''RESISTANCE'' then (3 / 100, 10000)
             else if high_power then (0, 300)
             else (0, 200))
      in (float_rng_tuple level_values value 3, w1))"

definition list_count :: "pyval \<Rightarrow> raised + verdict" where
  "list_count value = int_rng_tuple (0, 255) value"

definition step_range :: "pyval \<Rightarrow> raised + verdict" where
  "step_range value = int_rng_tuple (0, 100) value"

text \<open>
  \<^verbatim>\<open>step_delay\<close> and \<^verbatim>\<open>step_time\<close> call \<^verbatim>\<open>float_rng_and_str_tuples(values, value)\<close> without
  the third parameter \<^verbatim>\<open>round_to\<close>, which has no default: Python raises \<^verbatim>\<open>TypeError\<close> at the
  call, before the body of the method runs. \<open>call_float_rng_and_str_tuples\<close> is the call
  with the arguments that are passed.
\<close>

definition call_float_rng_and_str_tuples ::
  "(rat \<times> rat) \<times> string list \<Rightarrow> pyval \<Rightarrow> nat option \<Rightarrow> raised + verdict" where
  "call_float_rng_and_str_tuples validation_set value round_to =
     (case round_to of
        None \<Rightarrow> Inl RaisedTypeError
      | Some n \<Rightarrow> float_rng_and_str_tuples validation_set value n)"

definition step_delay :: "pyval \<Rightarrow> raised + verdict" where
  "step_delay value =
     call_float_rng_and_str_tuples ((1 / 1000, 999), min_max_def_tokens) value None"

definition led_rco :: "pyval \<Rightarrow> raised + verdict" where
  "led_rco value =
     float_rng_and_str_tuples ((0, 1), min_max_def_tokens) value 2"

definition step_time :: "pyval \<Rightarrow> raised + verdict" where
  "step_time value =
     call_float_rng_and_str_tuples ((1 / 100, 100), min_max_def_tokens) value None"

definition step_min_max :: validator where
  "step_min_max value w =
     (let (mode, w1) = bus_query '':PROG:MODE?'' w
      in if is_literal mode ''VOLTAGE'' then (current value, w1) else (voltage value, w1))"

text \<open>A validator that does not touch the instrument, as a bound method.\<close>

definition pure_validator :: "(pyval \<Rightarrow> raised + verdict) \<Rightarrow> validator" where
  "pure_validator f value w = (f value, w)"

text \<open>The validation rules of the three classes, by method name.\<close>

datatype rule =
    On_off | Mode_dynamic | Mode_static | Current_range | Voltage_range | Resistance_range
  | Mode_transient | Pulse_width | Power | Resistance | Voltage | Current | Slew
  | Mode_battery | Battery_level | Capacity
  | List_levels | Program_levels | List_count | Step_range | Step_delay | Led_rco | Step_time
  | Step_min_max

fun validator_of :: "bool \<Rightarrow> rule \<Rightarrow> validator" where
  "validator_of hp On_off = pure_validator on_off"
| "validator_of hp Mode_dynamic = pure_validator mode_dynamic"
| "validator_of hp Mode_static = pure_validator mode_static"
| "validator_of hp Current_range = pure_validator current_range"
| "validator_of hp Voltage_range = pure_validator voltage_range"
| "validator_of hp Resistance_range = pure_validator resistance_range"
| "validator_of hp Mode_transient = pure_validator mode_transient"
| "validator_of hp Pulse_width = pure_validator pulse_width"
| "validator_of hp Power = pure_validator (power hp)"
| "validator_of hp Resistance = pure_validator resistance"
| "validator_of hp Voltage = pure_validator voltage"
| "validator_of hp Current = pure_validator current"
| "validator_of hp Slew = pure_validator slew"
| "validator_of hp Mode_battery = pure_validator mode_battery"
| "validator_of hp Battery_level = battery_level"
| "validator_of hp Capacity = pure_validator capacity"
| "validator_of hp List_levels = list_levels hp"
| "validator_of hp Program_levels = program_levels hp"
| "validator_of hp List_count = pure_validator list_count"
| "validator_of hp Step_range = pure_validator step_range"
| "validator_of hp Step_delay = pure_validator step_delay"
| "validator_of hp Led_rco = pure_validator led_rco"
| "validator_of hp Step_time = pure_validator step_time"
| "validator_of hp Step_min_max = step_min_max"

section \<open>Class \<^verbatim>\<open>Command\<close>\<close>

text \<open>
  \<^verbatim>\<open>read_write\<close> returns the answer of the query when no candidate is given and \<^verbatim>\<open>None\<close>
  otherwise; the result type is \<open>string option\<close>, with \<open>None\<close> for Python's \<^verbatim>\<open>None\<close>. A raise
  inside the validator leaves \<^verbatim>\<open>read_write\<close> at once. \<open>value_dict\<close> is the dictionary passed
  by reference, or \<open>None\<close>; every caller that passes one passes a key.
\<close>

definition store_query :: "dict_id option \<Rightarrow> string \<Rightarrow> string \<Rightarrow> world \<Rightarrow> world" where
  "store_query value_dict value_key query w =
     (case value_dict of
        None \<Rightarrow> w
      | Some d \<Rightarrow> (let (answer, w1) = bus_query query w in dict_set d value_key answer w1))"

definition read_write ::
  "string \<Rightarrow> string \<Rightarrow> validator option \<Rightarrow> pyval \<Rightarrow> dict_id option \<Rightarrow> string \<Rightarrow> world
     \<Rightarrow> (raised + string option) \<times> world" where
  "read_write query write validator value value_dict value_key w =
     (if value = PNone then
        (let (answer, w1) = bus_query query w in (Inr (Some answer), w1))
      else
        (case validator of
           Some vd \<Rightarrow>
             (case vd value w of
                (Inl e, w1) \<Rightarrow> (Inl e, w1)
              | (Inr (Rejected err), w1) \<Rightarrow> (Inr None, print_warning err w1)
              | (Inr (Accepted val), w1) \<Rightarrow>
                  (Inr None,
                   store_query value_dict value_key query
                     (bus_write (write @ '' '' @ py_str value) w1)))
         | None \<Rightarrow>
             (Inr None,
              store_query value_dict value_key query
                (bus_write (write @ '' '' @ py_str value) w))))"

definition command_read :: "string \<Rightarrow> world \<Rightarrow> string \<times> world" where
  "command_read query w = bus_query query w"

text \<open>\<^verbatim>\<open>Command.write\<close>; its second parameter is a verdict already computed, or absent.\<close>

definition command_write :: "string \<Rightarrow> verdict option \<Rightarrow> world \<Rightarrow> world" where
  "command_write write validator w =
     (case validator of
        None \<Rightarrow> bus_write write w
      | Some (Rejected err) \<Rightarrow> print_warning err w
      | Some (Accepted val) \<Rightarrow> bus_write write w)"

section \<open>Input control and the modes\<close>

subsection \<open>Class \<^verbatim>\<open>Input\<close>\<close>

definition input_control :: "pyval \<Rightarrow> world \<Rightarrow> (raised + string option) \<times> world" where
  "input_control set_input_on_off w =
     read_write '':INP?'' '':INP'' (Some (pure_validator on_off))
       set_input_on_off (Some Global_input_values) ''input_on'' w"

definition Input_on :: "world \<Rightarrow> (raised + unit) \<times> world" where
  "Input_on w =
     (case input_control (PStr ''ON'') w of
        (Inl e, w1) \<Rightarrow> (Inl e, w1)
      | (Inr r, w1) \<Rightarrow> (Inr (), w1))"

definition Input_off :: "world \<Rightarrow> (raised + unit) \<times> world" where
  "Input_off w =
     (case input_control (PStr ''OFF'') w of
        (Inl e, w1) \<Rightarrow> (Inl e, w1)
      | (Inr r, w1) \<Rightarrow> (Inr (), w1))"

subsection \<open>\<^verbatim>\<open>ModeStatic._mode\<close> and \<^verbatim>\<open>ModeDynamic._mode\<close>\<close>

definition ModeStatic_mode :: "pyval \<Rightarrow> world \<Rightarrow> (raised + string option) \<times> world" where
  "ModeStatic_mode set_static_mode w =
     (case read_write '':FUNC?'' '':FUNC'' (Some (pure_validator mode_static))
             set_static_mode (Some Global_input_values) ''mode'' w of
        (Inl e, w1) \<Rightarrow> (Inl e, w1)
      | (Inr rvalue, w1) \<Rightarrow>
          (case rvalue of
             None \<Rightarrow>
               (let (value, w2) = command_read '':FUNC?'' w1
                in (Inr rvalue, dict_set Global_input_values ''mode'' (''STATIC '' @ value) w2))
           | Some answer \<Rightarrow> (Inr rvalue, w1)))"

definition ModeDynamic_mode :: "pyval \<Rightarrow> world \<Rightarrow> (raised + string option) \<times> world" where
  "ModeDynamic_mode set_dynamic_mode w =
     (case read_write '':FUNC:TRAN?'' '':FUNC:TRAN'' (Some (pure_validator mode_dynamic))
             set_dynamic_mode (Some Global_input_values) ''mode'' w of
        (Inl e, w1) \<Rightarrow> (Inl e, w1)
      | (Inr rvalue, w1) \<Rightarrow>
          (case rvalue of
             None \<Rightarrow>
               (let (value, w2) = command_read '':FUNC:TRAN?'' w1
                in (Inr rvalue, dict_set Global_input_values ''mode'' (''DYNAMIC '' @ value) w2))
           | Some answer \<Rightarrow> (Inr rvalue, w1)))"

subsection \<open>\<^verbatim>\<open>enable()\<close> and \<^verbatim>\<open>on()\<close> of the fourteen mode classes\<close>

definition discard :: "(raised + 'a) \<times> world \<Rightarrow> (raised + unit) \<times> world" where
  "discard r = (case r of (Inl e, w1) \<Rightarrow> (Inl e, w1) | (Inr x, w1) \<Rightarrow> (Inr (), w1))"

fun mode_enable :: "mode \<Rightarrow> world \<Rightarrow> (raised + unit) \<times> world" where
  "mode_enable ModeCC w = discard (ModeStatic_mode (PStr ''CURR'') w)"
| "mode_enable ModeCV w = discard (ModeStatic_mode (PStr ''VOLT'') w)"
| "mode_enable ModeCP w = discard (ModeStatic_mode (PStr ''POW'') w)"
| "mode_enable ModeCR w = discard (ModeStatic_mode (PStr ''RES'') w)"
| "mode_enable ModeLED w = discard (ModeStatic_mode (PStr ''LED'') w)"
| "mode_enable ModeDynamicCC w = discard (ModeDynamic_mode (PStr ''CURR'') w)"
| "mode_enable ModeDynamicCV w = discard (ModeDynamic_mode (PStr ''VOLT'') w)"
| "mode_enable ModeDynamicCP w = discard (ModeDynamic_mode (PStr ''POW'') w)"
| "mode_enable ModeDynamicCR w = discard (ModeDynamic_mode (PStr ''RES'') w)"
| "mode_enable ModeList w =
     (Inr (), command_write '':LIST:STAT:ON'' None (dict_set Global_input_values ''mode'' ''LIST'' w))"
| "mode_enable ModeBattery w =
     (let w1 = command_write '':BATT:FUNC'' None w;
          w2 = dict_set Global_input_values ''mode'' ''BATTERY'' w1;
          (answer, w3) = command_read '':BATT:FUNC?'' w2
      in (Inr (), dict_set (Mode_dict ModeBattery) ''enable'' answer w3))"
| "mode_enable ModeOCP w =
     (Inr (), command_write '':OCP:FUNC'' None (dict_set Global_input_values ''mode'' ''OCP'' w))"
| "mode_enable ModeOPP w =
     (Inr (), command_write '':OPP:FUNC'' None (dict_set Global_input_values ''mode'' ''OCP'' w))"
| "mode_enable ModeProgram w =
     (Inr (), dict_set Global_input_values ''mode'' ''Program'' (command_write '':PROG:STAT:ON'' None w))"

definition mode_on :: "mode \<Rightarrow> world \<Rightarrow> (raised + unit) \<times> world" where
  "mode_on m w =
     (case mode_enable m w of
        (Inl e, w1) \<Rightarrow> (Inl e, w1)
      | (Inr u, w1) \<Rightarrow> discard (input_control (PStr ''ON'') w1))"

subsection \<open>Accessors of \<^verbatim>\<open>ModeCC\<close>, \<^verbatim>\<open>ModeDynamicCC\<close>, \<^verbatim>\<open>ModeBattery\<close> and \<^verbatim>\<open>ModeOCP\<close>\<close>

definition ModeCC_level :: "pyval \<Rightarrow> world \<Rightarrow> (raised + string option) \<times> world" where
  "ModeCC_level set_current_level w =
     read_write '':CURR?'' '':CURR'' (Some (pure_validator current))
       set_current_level (Some (Mode_dict ModeCC)) ''level'' w"

definition pulse_mode :: "pyval \<Rightarrow> world \<Rightarrow> (raised + string option) \<times> world" where
  "pulse_mode set_transient_mode w =
     read_write '':CURR:TRAN:MODE?'' '':CURR:TRAN:MODE'' (Some (pure_validator mode_transient))
       set_transient_mode (Some (Mode_dict ModeDynamicCC)) ''pulse_mode'' w"

definition a_level :: "pyval \<Rightarrow> world \<Rightarrow> (raised + string option) \<times> world" where
  "a_level set_pulse_level w =
     read_write '':CURR:TRAN:ALEV?'' '':CURR:TRAN:ALEV'' (Some (pure_validator current))
       set_pulse_level (Some (Mode_dict ModeDynamicCC)) ''a_level'' w"

definition b_level :: "pyval \<Rightarrow> world \<Rightarrow> (raised + string option) \<times> world" where
  "b_level set_pulse_level w =
     read_write '':CURR:TRAN:BLEV?'' '':CURR:TRAN:BLEV'' (Some (pure_validator current))
       set_pulse_level (Some (Mode_dict ModeDynamicCC)) ''b_level'' w"

definition a_width :: "pyval \<Rightarrow> world \<Rightarrow> (raised + string option) \<times> world" where
  "a_width set_pulse_width w =
     read_write '':CURR:TRAN:AWID?'' '':CURR:TRAN:AWID'' (Some (pure_validator pulse_width))
       set_pulse_width (Some (Mode_dict ModeDynamicCC)) ''a_width'' w"

definition b_width :: "pyval \<Rightarrow> world \<Rightarrow> (raised + string option) \<times> world" where
  "b_width set_pulse_width w =
     read_write '':CURR:TRAN:BWID?'' '':CURR:TRAN:BWID'' (Some (pure_validator pulse_width))
       set_pulse_width (Some (Mode_dict ModeDynamicCC)) ''b_width'' w"

text \<open>Four calls in a row; a raise in one of them skips the calls after it.\<close>

definition set_a_and_b ::
  "pyval \<Rightarrow> pyval \<Rightarrow> pyval \<Rightarrow> pyval \<Rightarrow> world \<Rightarrow> (raised + unit) \<times> world" where
  "set_a_and_b set_a_level set_b_level set_a_width set_b_width w =
     (case a_level set_a_level w of
        (Inl e, w1) \<Rightarrow> (Inl e, w1)
      | (Inr r1, w1) \<Rightarrow>
          (case b_level set_b_level w1 of
             (Inl e, w2) \<Rightarrow> (Inl e, w2)
           | (Inr r2, w2) \<Rightarrow>
               (case a_width set_a_width w2 of
                  (Inl e, w3) \<Rightarrow> (Inl e, w3)
                | (Inr r3, w3) \<Rightarrow> discard (b_width set_b_width w3))))"

definition ModeBattery_level :: "pyval \<Rightarrow> world \<Rightarrow> (raised + string option) \<times> world" where
  "ModeBattery_level set_battery_level w =
     read_write '':BATT:LEV?'' '':BATT:LEV'' (Some battery_level)
       set_battery_level (Some (Mode_dict ModeBattery)) ''level'' w"

definition ModeOCP_step_delay :: "pyval \<Rightarrow> world \<Rightarrow> (raised + string option) \<times> world" where
  "ModeOCP_step_delay set_step_delay_time w =
     read_write '':OCP:STEP?'' '':OCP:STEP'' (Some (pure_validator step_time))
       set_step_delay_time (Some (Mode_dict ModeOCP)) ''step_delay'' w"

section \<open>The function-select line of each mode\<close>

text \<open>
  The line that switches the instrument to a mode, as the mode's \<^verbatim>\<open>enable()\<close> spells it: the
  write template of \<^verbatim>\<open>_mode\<close> with the mode's token for the static and dynamic modes, the
  literal line of \<^verbatim>\<open>enable()\<close> for the others.
\<close>

fun function_select :: "mode \<Rightarrow> string" where
  "function_select ModeCC = '':FUNC CURR''"
| "function_select ModeCV = '':FUNC VOLT''"
| "function_select ModeCP = '':FUNC POW''"
| "function_select ModeCR = '':FUNC RES''"
| "function_select ModeLED = '':FUNC LED''"
| "function_select ModeDynamicCC = '':FUNC:TRAN CURR''"
| "function_select ModeDynamicCV = '':FUNC:TRAN VOLT''"
| "function_select ModeDynamicCP = '':FUNC:TRAN POW''"
| "function_select ModeDynamicCR = '':FUNC:TRAN RES''"
| "function_select ModeList = '':LIST:STAT:ON''"
| "function_select ModeBattery = '':BATT:FUNC''"
| "function_select ModeOCP = '':OCP:FUNC''"
| "function_select ModeOPP = '':OPP:FUNC''"
| "function_select ModeProgram = '':PROG:STAT:ON''"

section \<open>Example worlds\<close>

text \<open>
  An instrument whose input is off until a line has been written to it: it answers \<open>1\<close>
  to \<^verbatim>\<open>:INP?\<close> once some write has been sent, and \<open>0\<close> to everything else. The example
  world starts with nothing sent, empty mirrors and nothing printed.
\<close>

definition demo_instrument :: "event list \<Rightarrow> string \<Rightarrow> string" where
  "demo_instrument tr q = (if q = '':INP?'' \<and> writes tr \<noteq> [] then ''1'' else ''0'')"

definition demo_world :: world where
  "demo_world =
     \<lparr>instrument = demo_instrument, trace = [], mirrors = (\<lambda>d. Map.empty), printed = []\<rparr>"

text \<open>
  An instrument in battery mode with the current sub-mode selected: it answers
  \<^verbatim>\<open>CURRENT\<close> to \<^verbatim>\<open>:BATT:MODE?\<close>.
\<close>

definition current_instrument :: "event list \<Rightarrow> string \<Rightarrow> string" where
  "current_instrument tr q = (if q = '':BATT:MODE?'' then ''CURRENT'' else ''0.000000'')"

definition battery_world :: world where
  "battery_world =
     \<lparr>instrument = current_instrument, trace = [], mirrors = (\<lambda>d. Map.empty), printed = []\<rparr>"

section \<open>Basic facts\<close>

lemma bus_write_simps [simp]:
  "trace (bus_write l w) = trace w @ [Write l]"
  "mirrors (bus_write l w) = mirrors w"
  "printed (bus_write l w) = printed w"
  "instrument (bus_write l w) = instrument w"
  by (simp_all add: bus_write_def)

lemma bus_query_simps [simp]:
  "fst (bus_query l w) = instrument w (trace w) l"
  "trace (snd (bus_query l w)) = trace w @ [Query l]"
  "mirrors (snd (bus_query l w)) = mirrors w"
  "printed (snd (bus_query l w)) = printed w"
  "instrument (snd (bus_query l w)) = instrument w"
  by (simp_all add: bus_query_def)

lemma dict_set_simps [simp]:
  "trace (dict_set d k v w) = trace w"
  "mirrors (dict_set d k v w) = (mirrors w)(d := (mirrors w d)(k \<mapsto> v))"
  "printed (dict_set d k v w) = printed w"
  "instrument (dict_set d k v w) = instrument w"
  by (simp_all add: dict_set_def)

lemma print_warning_simps [simp]:
  "trace (print_warning e w) = trace w"
  "mirrors (print_warning e w) = mirrors w"
  "printed (print_warning e w) = printed w @ [e]"
  "instrument (print_warning e w) = instrument w"
  by (simp_all add: print_warning_def)

lemma writes_append [simp]: "writes (xs @ ys) = writes xs @ writes ys"
  by (simp add: writes_def)

lemma writes_simps [simp]:
  "writes [] = []"
  "writes (Write l # evs) = Write l # writes evs"
  "writes (Query l # evs) = writes evs"
  by (simp_all add: writes_def)

lemma pure_validator_simps [simp]:
  "snd (pure_validator f value w) = w"
  "fst (pure_validator f value w) = f value"
  by (simp_all add: pure_validator_def)

lemma battery_level_world [simp]:
  "snd (battery_level value w) = snd (bus_query '':BATT:MODE?'' w)"
  by (simp add: battery_level_def split_def Let_def)

lemma list_levels_world [simp]:
  "snd (list_levels hp value w) = snd (bus_query '':LIST:MODE?'' w)"
  by (simp add: list_levels_def split_def Let_def)

lemma program_levels_world [simp]:
  "snd (program_levels hp value w) = snd (bus_query '':PROG:MODE?'' w)"
  by (simp add: program_levels_def split_def Let_def)

lemma step_min_max_world [simp]:
  "snd (step_min_max value w) = snd (bus_query '':PROG:MODE?'' w)"
  by (simp add: step_min_max_def split_def Let_def)

text \<open>
  No validation rule of the driver writes to the instrument, touches a mirror or prints:
  at most it sends a query.
\<close>

lemma validator_of_frame:
  "mirrors (snd (validator_of hp r value w)) = mirrors w"
  "printed (snd (validator_of hp r value w)) = printed w"
  "instrument (snd (validator_of hp r value w)) = instrument w"
  "writes (trace (snd (validator_of hp r value w))) = writes (trace w)"
  by (cases r; simp)+

lemma on_off_lower_on: "on_off (PStr ''on'') = Inr (Accepted ''ON'')"
  by code_simp

lemma current_35: "current (PFloat (Finite 35) ''35.0'') = Inr (Rejected ValueError)"
  by code_simp

lemma discard_simps [simp]:
  "discard (Inr x, w) = (Inr (), w)"
  "discard (Inl e, w) = (Inl e, w)"
  by (simp_all add: discard_def)

lemma read_write_pure:
  "read_write query write (Some (pure_validator f)) v (Some d) key w =
     (if v = PNone then (Inr (Some (instrument w (trace w) query)), snd (bus_query query w))
      else case f v of
        Inl e \<Rightarrow> (Inl e, w)
      | Inr (Rejected err) \<Rightarrow> (Inr None, print_warning err w)
      | Inr (Accepted c) \<Rightarrow>
          (Inr None,
           dict_set d key (instrument w (trace w @ [Write (write @ '' '' @ py_str v)]) query)
             (snd (bus_query query (bus_write (write @ '' '' @ py_str v) w)))))"
  by (simp add: read_write_def pure_validator_def store_query_def split_def
      split: sum.splits verdict.splits)

lemma read_write_pure_other_key:
  assumes "d' \<noteq> d \<or> k' \<noteq> key"
  shows "mirrors (snd (read_write query write (Some (pure_validator f)) v (Some d) key w)) d' k'
           = mirrors w d' k'"
  using assms by (auto simp: read_write_pure split: sum.splits verdict.splits)

lemma read_write_pure_trace:
  "prefix (trace w) (trace (snd (read_write query write (Some (pure_validator f)) v (Some d) key w)))"
  by (auto simp: read_write_pure split: sum.splits verdict.splits)

lemma read_write_get:
  "read_write query write validator PNone value_dict key w =
     (Inr (Some (instrument w (trace w) query)), w\<lparr>trace := trace w @ [Query query]\<rparr>)"
  by (simp add: read_write_def bus_query_def)

lemma read_write_rule_mirrors:
  "mirrors (snd (read_write query write (Some (validator_of hp r)) v (Some d) key w)) =
     (if v \<noteq> PNone \<and> is_accepted (fst (validator_of hp r v w))
      then (mirrors w)(d := (mirrors w d)(key \<mapsto>
             instrument w (trace (snd (validator_of hp r v w)) @ [Write (write @ '' '' @ py_str v)])
               query))
      else mirrors w)"
proof -
  obtain res w1 where v: "validator_of hp r v w = (res, w1)"
    by (cases "validator_of hp r v w")
  then have w1: "w1 = snd (validator_of hp r v w)" by simp
  have f: "mirrors w1 = mirrors w" "instrument w1 = instrument w"
    by (simp_all add: w1 validator_of_frame)
  show ?thesis
    by (cases res rule: is_accepted.cases)
      (simp_all add: read_write_def v f store_query_def split_def)
qed


subsection \<open>Strings\<close>

text \<open>\<open>py_in_str\<close> is the contiguous-sublist relation of the library.\<close>

lemma py_in_str_sublist: "py_in_str x y = sublist x y"
  by (induction y) (simp_all add: sublist_Cons_right)

lemma lower_append [simp]: "lower (a @ b) = lower a @ lower b"
  by (simp add: lower_def)

lemma sublist_lower: "sublist a b \<Longrightarrow> sublist (lower a) (lower b)"
  unfolding lower_def by (rule map_mono_sublist)

lemma sublist_repr_str: "sublist t (repr_str t)"
proof -
  have "sublist t ([CHR 0x27] @ t @ [CHR 0x27])" by (rule sublist_appendI)
  then show ?thesis by (simp add: repr_str_def)
qed

lemma sublist_join_comma: "t \<in> set ts \<Longrightarrow> sublist t (join_comma (map repr_str ts))"
proof (induction ts rule: join_comma.induct)
  case 1
  then show ?case by simp
next
  case (2 s)
  then show ?case by (simp add: sublist_repr_str)
next
  case (3 s u us)
  show ?case
  proof (cases "t = s")
    case True
    have "sublist (repr_str s) (repr_str s @ '', '' @ join_comma (map repr_str (u # us)))"
      by (rule sublist_append_rightI)
    with sublist_repr_str [of s]
    have "sublist s (repr_str s @ '', '' @ join_comma (map repr_str (u # us)))"
      by (rule sublist_order.order.trans)
    then show ?thesis using True by simp
  next
    case False
    with 3 have "sublist t (join_comma (map repr_str (u # us)))" by simp
    moreover have "sublist (join_comma (map repr_str (u # us)))
        ((repr_str s @ '', '') @ join_comma (map repr_str (u # us)))"
      by (rule sublist_append_leftI)
    ultimately have "sublist t ((repr_str s @ '', '') @ join_comma (map repr_str (u # us)))"
      by (rule sublist_order.order.trans)
    then show ?thesis by simp
  qed
qed

lemma sublist_str_of_tuple: "t \<in> set ts \<Longrightarrow> sublist t (str_of_tuple ts)"
proof -
  assume t: "t \<in> set ts"
  have j: "sublist t (join_comma (map repr_str ts))" by (rule sublist_join_comma [OF t])
  have "sublist (join_comma (map repr_str ts)) (''('' @ join_comma (map repr_str ts) @ '')'')"
    by (rule sublist_appendI)
  with j have a: "sublist t (''('' @ join_comma (map repr_str ts) @ '')'')"
    by (rule sublist_order.order.trans)
  show ?thesis
  proof (cases ts)
    case Nil
    with t show ?thesis by simp
  next
    case (Cons x xs)
    show ?thesis
    proof (cases xs)
      case Nil
      with Cons t have tx: "t = x" by simp
      have "sublist (repr_str t) (''('' @ repr_str t @ '',)'')"
        by (rule sublist_appendI)
      with sublist_repr_str [of t] have "sublist t (''('' @ repr_str t @ '',)'')"
        by (rule sublist_order.order.trans)
      then show ?thesis using Cons Nil tx by (simp add: str_of_tuple_def)
    next
      case (Cons y ys)
      with \<open>ts = x # xs\<close> a show ?thesis by (simp add: str_of_tuple_def)
    qed
  qed
qed

lemma chr_upper_lower: "chr_upper (chr_lower c) = chr_upper c"
proof (cases "c \<in> set ''ABCDEFGHIJKLMNOPQRSTUVWXYZ''")
  case True
  then show ?thesis by (auto simp: chr_lower_def chr_upper_def)
next
  case False
  then have "map_of (zip ''ABCDEFGHIJKLMNOPQRSTUVWXYZ'' ''abcdefghijklmnopqrstuvwxyz'') c = None"
    by (subst map_of_eq_None_iff) simp
  then show ?thesis by (simp add: chr_lower_def)
qed

lemma upper_lower: "upper (lower s) = upper s"
  by (simp add: upper_def lower_def chr_upper_lower)

lemma str_tuple_no_raise: "str_tuple ts v \<noteq> Inl e"
  by (simp add: str_tuple_def Let_def split: pyval.splits)


subsection \<open>Rounding\<close>

text \<open>
  \<open>py_round\<close> leaves a decimal of \<open>n\<close> places alone, and moves any value by at most half a
  unit of the last place.
\<close>

lemma py_round_decimal: "py_round (of_int k / 10 ^ n) n = of_int k / 10 ^ n"
  by (simp add: py_round_def)

lemma py_round_nearest: "\<bar>py_round x n - x\<bar> \<le> 1 / (2 * 10 ^ n)"
proof -
  define s where "s = x * 10 ^ n"
  define f where "f = \<lfloor>s\<rfloor>"
  define d where "d = s - of_int f"
  define r where "r = (if d < 1 / 2 then f else if 1 / 2 < d then f + 1 else if even f then f else f + 1)"
  have d0: "0 \<le> d" and d1: "d < 1" unfolding d_def f_def by linarith+
  have "\<bar>of_int r - s\<bar> \<le> 1 / 2"
    using d0 d1 unfolding r_def d_def by (auto simp: abs_if)
  moreover have "py_round x n = of_int r / 10 ^ n"
    by (simp add: py_round_def Let_def r_def d_def f_def s_def)
  moreover have "x = s / 10 ^ n" by (simp add: s_def)
  ultimately have "\<bar>py_round x n - x\<bar> = \<bar>of_int r - s\<bar> / 10 ^ n"
    by (simp add: diff_divide_distrib [symmetric] abs_divide del: of_int_diff)
  also have "\<dots> \<le> (1 / 2) / 10 ^ n"
    using \<open>\<bar>of_int r - s\<bar> \<le> 1 / 2\<close> by (intro divide_right_mono) simp_all
  finally show ?thesis by (simp add: field_simps)
qed

lemma numeric_cases:
  assumes "is_float_or_int v"
  obtains (raise) e where "py_float v = Inl e"
    | (fin) x where "py_float v = Inr (Finite x)"
    | (inf) b where "py_float v = Inr (Infinity b)"
    | (nan) "py_float v = Inr NaN"
proof (cases "py_float v")
  case (Inl a) then show ?thesis using raise by blast
next
  case (Inr f) then show ?thesis using fin inf nan by (cases f) auto
qed


subsection \<open>Evaluations used below\<close>

lemma mode_static_tokens:
  "mode_static (PStr ''CURR'') = Inr (Accepted ''CURR'')"
  "mode_static (PStr ''VOLT'') = Inr (Accepted ''VOLT'')"
  "mode_static (PStr ''POW'') = Inr (Accepted ''POW'')"
  "mode_static (PStr ''RES'') = Inr (Accepted ''RES'')"
  "mode_static (PStr ''LED'') = Inr (Accepted ''LED'')"
  by code_simp+

lemma mode_dynamic_tokens:
  "mode_dynamic (PStr ''CURR'') = Inr (Accepted ''CURR'')"
  "mode_dynamic (PStr ''VOLT'') = Inr (Accepted ''VOLT'')"
  "mode_dynamic (PStr ''POW'') = Inr (Accepted ''POW'')"
  "mode_dynamic (PStr ''RES'') = Inr (Accepted ''RES'')"
  by code_simp+

lemma on_off_upper_on: "on_off (PStr ''ON'') = Inr (Accepted ''ON'')"
  by code_simp

lemma mode_static_e:
  "str_tuple [''CURRent'', ''VOLTage'', ''POWer'', ''RESistance'', ''LED''] (PStr ''e'')
     = Inr (Accepted ''E'')"
  by code_simp

lemma mode_transient_ont: "mode_transient (PStr ''ont'') = Inr (Accepted ''ONT'')"
  by code_simp

lemma mode_transient_span: "mode_transient (PStr ''s', 'P'') = Inr (Accepted ''S', 'P'')"
  by code_simp

lemma float_rng_tuple_100:
  "float_rng_tuple (3 / 100, 10000) (PFloat (Finite 100) ''100.0'') 3 = Inr (Accepted ''100.0'')"
  by code_simp


lemma float_rng_tuple_64th:
  "float_rng_tuple (3 / 100, 10000) (PFloat (Finite (1 / 64)) ''0.015625'') 3
     = Inr (Rejected ValueError)"
  by code_simp

subsection \<open>\<^verbatim>\<open>_mode\<close>, \<^verbatim>\<open>enable()\<close> and \<^verbatim>\<open>input_control('ON')\<close>\<close>

lemma input_control_on:
  "input_control (PStr ''ON'') w =
     (Inr None, dict_set Global_input_values ''input_on'' (instrument w (trace w @ [Write '':INP ON'']) '':INP?'')
        (snd (bus_query '':INP?'' (bus_write '':INP ON'' w))))"
  by (simp add: input_control_def read_write_def pure_validator_def on_off_upper_on
      store_query_def split_def)

lemma ModeStatic_mode_accepted:
  assumes "mode_static (PStr s) = Inr (Accepted c)"
  shows "ModeStatic_mode (PStr s) w =
     (Inr None,
      dict_set Global_input_values ''mode''
        (''STATIC '' @ instrument w (trace w @ [Write ('':FUNC '' @ s), Query '':FUNC?'']) '':FUNC?'')
        (snd (bus_query '':FUNC?'' (snd (bus_query '':FUNC?'' (bus_write ('':FUNC '' @ s) w))))))"
  using assms
  by (simp add: ModeStatic_mode_def read_write_def pure_validator_def store_query_def split_def
      command_read_def dict_set_def bus_query_def bus_write_def)

lemma ModeDynamic_mode_accepted:
  assumes "mode_dynamic (PStr s) = Inr (Accepted c)"
  shows "ModeDynamic_mode (PStr s) w =
     (Inr None,
      dict_set Global_input_values ''mode''
        (''DYNAMIC '' @ instrument w (trace w @ [Write ('':FUNC:TRAN '' @ s), Query '':FUNC:TRAN?'']) '':FUNC:TRAN?'')
        (snd (bus_query '':FUNC:TRAN?'' (snd (bus_query '':FUNC:TRAN?'' (bus_write ('':FUNC:TRAN '' @ s) w))))))"
  using assms
  by (simp add: ModeDynamic_mode_def read_write_def pure_validator_def store_query_def split_def
      command_read_def dict_set_def bus_query_def bus_write_def)

lemma ModeStatic_mode_mirrors:
  assumes "v \<noteq> PNone"
  shows "mirrors (snd (ModeStatic_mode v w)) =
           (mirrors w)(Global_input_values := (mirrors w Global_input_values)(''mode'' \<mapsto>
              ''STATIC '' @ instrument w (butlast (trace (snd (ModeStatic_mode v w)))) '':FUNC?''))"
proof (cases "mode_static v")
  case (Inl e)
  then show ?thesis by (simp add: mode_static_def str_tuple_no_raise)
next
  case (Inr verdict)
  then show ?thesis
    using assms
    by (cases verdict)
      (simp_all add: ModeStatic_mode_def read_write_pure command_read_def split_def butlast_append)
qed

lemma ModeDynamic_mode_mirrors:
  assumes "v \<noteq> PNone"
  shows "mirrors (snd (ModeDynamic_mode v w)) =
           (mirrors w)(Global_input_values := (mirrors w Global_input_values)(''mode'' \<mapsto>
              ''DYNAMIC '' @ instrument w (butlast (trace (snd (ModeDynamic_mode v w)))) '':FUNC:TRAN?''))"
proof (cases "mode_dynamic v")
  case (Inl e)
  then show ?thesis by (simp add: mode_dynamic_def str_tuple_no_raise)
next
  case (Inr verdict)
  then show ?thesis
    using assms
    by (cases verdict)
      (simp_all add: ModeDynamic_mode_def read_write_pure command_read_def split_def butlast_append)
qed

lemma mode_get_mirrors:
  "mirrors (snd (ModeStatic_mode PNone w)) = mirrors w"
  "mirrors (snd (ModeDynamic_mode PNone w)) = mirrors w"
  by (simp_all add: ModeStatic_mode_def ModeDynamic_mode_def read_write_pure)

lemma mode_enable_ok: "fst (mode_enable m w) = Inr ()"
  by (cases m)
    (simp_all add: ModeStatic_mode_accepted [OF mode_static_tokens(1)]
      ModeStatic_mode_accepted [OF mode_static_tokens(2)]
      ModeStatic_mode_accepted [OF mode_static_tokens(3)]
      ModeStatic_mode_accepted [OF mode_static_tokens(4)]
      ModeStatic_mode_accepted [OF mode_static_tokens(5)]
      ModeDynamic_mode_accepted [OF mode_dynamic_tokens(1)]
      ModeDynamic_mode_accepted [OF mode_dynamic_tokens(2)]
      ModeDynamic_mode_accepted [OF mode_dynamic_tokens(3)]
      ModeDynamic_mode_accepted [OF mode_dynamic_tokens(4)]
      split_def Let_def)

lemma mode_enable_writes:
  "writes (trace (snd (mode_enable m w))) = writes (trace w) @ [Write (function_select m)]"
  by (cases m)
    (simp_all add: ModeStatic_mode_accepted [OF mode_static_tokens(1)]
      ModeStatic_mode_accepted [OF mode_static_tokens(2)]
      ModeStatic_mode_accepted [OF mode_static_tokens(3)]
      ModeStatic_mode_accepted [OF mode_static_tokens(4)]
      ModeStatic_mode_accepted [OF mode_static_tokens(5)]
      ModeDynamic_mode_accepted [OF mode_dynamic_tokens(1)]
      ModeDynamic_mode_accepted [OF mode_dynamic_tokens(2)]
      ModeDynamic_mode_accepted [OF mode_dynamic_tokens(3)]
      ModeDynamic_mode_accepted [OF mode_dynamic_tokens(4)]
      split_def Let_def command_write_def command_read_def)

lemma mode_enable_mirror:
  "mirrors (snd (mode_enable m w)) Global_input_values ''mode'' \<noteq> None"
  by (cases m)
    (simp_all add: ModeStatic_mode_accepted [OF mode_static_tokens(1)]
      ModeStatic_mode_accepted [OF mode_static_tokens(2)]
      ModeStatic_mode_accepted [OF mode_static_tokens(3)]
      ModeStatic_mode_accepted [OF mode_static_tokens(4)]
      ModeStatic_mode_accepted [OF mode_static_tokens(5)]
      ModeDynamic_mode_accepted [OF mode_dynamic_tokens(1)]
      ModeDynamic_mode_accepted [OF mode_dynamic_tokens(2)]
      ModeDynamic_mode_accepted [OF mode_dynamic_tokens(3)]
      ModeDynamic_mode_accepted [OF mode_dynamic_tokens(4)]
      split_def Let_def command_write_def command_read_def)

lemma mode_on_unfold:
  "mode_on m w = discard (input_control (PStr ''ON'') (snd (mode_enable m w)))"
proof -
  obtain w1 where "mode_enable m w = (Inr (), w1)"
    using mode_enable_ok [of m w] by (cases "mode_enable m w") auto
  then show ?thesis by (simp add: mode_on_def)
qed

lemma battery_level_bounds:
  "battery_level v w =
     (float_rng_tuple (3 / 100, 10000) v 3, w\<lparr>trace := trace w @ [Query '':BATT:MODE?'']\<rparr>)"
  by (simp add: battery_level_def bus_query_def is_literal_def)


section \<open>The Dispatcher: a set call with an accepted candidate\<close>

text \<open>
  Claim C1. When the candidate of a set call passes the configured validation rule,
  \<^verbatim>\<open>read_write\<close> sends exactly the write template, a space and \<^verbatim>\<open>str()\<close> of the raw candidate
  (not the canonical string the rule returned), then sends the query again, stores its
  answer in the target mirror under the configured key, and returns \<^verbatim>\<open>None\<close>.
\<close>

theorem read_write_accepted:
  assumes "value \<noteq> PNone" and "validator value w = (Inr (Accepted val), w1)"
  shows "read_write query write (Some validator) value (Some d) key w =
           (Inr None,
            w1\<lparr>trace := trace w1 @ [Write (write @ '' '' @ py_str value), Query query],
               mirrors := (mirrors w1)(d := (mirrors w1 d)(key \<mapsto>
                  instrument w1 (trace w1 @ [Write (write @ '' '' @ py_str value)]) query))\<rparr>)"
  using assms
  by (simp add: read_write_def store_query_def bus_query_def bus_write_def dict_set_def)

text \<open>
  The candidate \<^verbatim>\<open>'on'\<close> of \<^verbatim>\<open>input_control\<close>: the rule returns \<^verbatim>\<open>'ON'\<close>, the line sent is
  \<^verbatim>\<open>:INP on\<close>, and the mirror holds the instrument's answer \<open>1\<close>.
\<close>

theorem read_write_accepted_witness:
  "PStr ''on'' \<noteq> PNone
   \<and> pure_validator on_off (PStr ''on'') demo_world = (Inr (Accepted ''ON''), demo_world)
   \<and> read_write '':INP?'' '':INP'' (Some (pure_validator on_off)) (PStr ''on'')
        (Some Global_input_values) ''input_on'' demo_world =
       (Inr None,
        demo_world\<lparr>trace := [Write '':INP on'', Query '':INP?''],
                   mirrors := (\<lambda>d. Map.empty)(Global_input_values := [''input_on'' \<mapsto> ''1''])\<rparr>)"
proof -
  have v: "pure_validator on_off (PStr ''on'') demo_world = (Inr (Accepted ''ON''), demo_world)"
    by (simp add: pure_validator_def on_off_lower_on)
  have n: "PStr ''on'' \<noteq> PNone" by simp
  show ?thesis
    using read_write_accepted [of "PStr ''on''" "pure_validator on_off" demo_world "''ON''" demo_world
        "'':INP?''" "'':INP''" Global_input_values "''input_on''"] n v
    by (simp add: demo_world_def demo_instrument_def)
qed

section \<open>The Dispatcher: a set call with a rejected candidate\<close>

text \<open>
  Claim C2. When the configured validation rule rejects the candidate of a set call, the
  call only prints the diagnostic: no write line is sent, every mirror keeps the value
  it had before the call for every key, and the call returns \<^verbatim>\<open>None\<close>.
\<close>

theorem read_write_rejected:
  assumes "value \<noteq> PNone"
    and "fst (validator_of hp r value w) = Inr (Rejected err)"
  shows "fst (read_write query write (Some (validator_of hp r)) value value_dict key w) = Inr None
       \<and> mirrors (snd (read_write query write (Some (validator_of hp r)) value value_dict key w))
           = mirrors w
       \<and> writes (trace (snd (read_write query write (Some (validator_of hp r)) value value_dict key w)))
           = writes (trace w)
       \<and> printed (snd (read_write query write (Some (validator_of hp r)) value value_dict key w))
           = printed w @ [err]"
proof -
  obtain res w1 where v: "validator_of hp r value w = (res, w1)"
    by (cases "validator_of hp r value w")
  with assms(2) have res: "res = Inr (Rejected err)" by simp
  have w1: "w1 = snd (validator_of hp r value w)" using v by simp
  have rw: "read_write query write (Some (validator_of hp r)) value value_dict key w
              = (Inr None, print_warning err w1)"
    using assms(1) v res by (simp add: read_write_def)
  show ?thesis
    unfolding rw by (simp add: w1 validator_of_frame)
qed

text \<open>Constant-current level \<open>35.0\<close>, outside \<open>[0, 30]\<close>: nothing is sent, a warning is printed.\<close>

theorem read_write_rejected_witness:
  "PFloat (Finite 35) ''35.0'' \<noteq> PNone
   \<and> fst (validator_of False Current (PFloat (Finite 35) ''35.0'') demo_world)
       = Inr (Rejected ValueError)
   \<and> fst (read_write '':CURR?'' '':CURR'' (Some (validator_of False Current))
          (PFloat (Finite 35) ''35.0'') (Some (Mode_dict ModeCC)) ''level'' demo_world) = Inr None
   \<and> mirrors (snd (read_write '':CURR?'' '':CURR'' (Some (validator_of False Current))
          (PFloat (Finite 35) ''35.0'') (Some (Mode_dict ModeCC)) ''level'' demo_world))
       = mirrors demo_world
   \<and> writes (trace (snd (read_write '':CURR?'' '':CURR'' (Some (validator_of False Current))
          (PFloat (Finite 35) ''35.0'') (Some (Mode_dict ModeCC)) ''level'' demo_world)))
       = writes (trace demo_world)
   \<and> printed (snd (read_write '':CURR?'' '':CURR'' (Some (validator_of False Current))
          (PFloat (Finite 35) ''35.0'') (Some (Mode_dict ModeCC)) ''level'' demo_world))
       = printed demo_world @ [ValueError]"
proof -
  have n: "PFloat (Finite 35) ''35.0'' \<noteq> PNone" by simp
  have v: "fst (validator_of False Current (PFloat (Finite 35) ''35.0'') demo_world)
             = Inr (Rejected ValueError)"
    by (simp add: current_35)
  show ?thesis
    using read_write_rejected [OF n v, of "'':CURR?''" "'':CURR''" "Some (Mode_dict ModeCC)" "''level''"] n v
    by blast
qed

section \<open>Where the values of the mirrors come from\<close>

text \<open>
  Claim C3 says that no operation stores a literal in a mirror. \<^verbatim>\<open>ModeList.enable\<close> does:
  it stores \<^verbatim>\<open>'LIST'\<close> as the active function and sends one write; no query is sent at
  all, so the stored value is not an answer of the instrument.
\<close>

theorem enable_list_stores_literal:
  "mirrors (snd (mode_enable ModeList demo_world)) Global_input_values ''mode'' = Some ''LIST''
   \<and> trace (snd (mode_enable ModeList demo_world)) = [Write '':LIST:STAT:ON'']"
  by (simp add: command_write_def demo_world_def demo_instrument_def)

text \<open>
  Claim C3 as amended. Every value the Dispatcher stores is the answer to the query it
  sends again right after the write of an accepted candidate; a rejected candidate stores
  nothing, and a get call returns the answer of its query and stores nothing. Beyond the
  Dispatcher, a \<^verbatim>\<open>_mode\<close> set call of a static or dynamic mode overwrites the shared
  active-function entry with \<^verbatim>\<open>'STATIC '\<close> or \<^verbatim>\<open>'DYNAMIC '\<close> followed by the answer to one more
  query, and \<^verbatim>\<open>enable()\<close> of the list, OCP, program and battery modes stores the literal
  \<^verbatim>\<open>'LIST'\<close>, \<^verbatim>\<open>'OCP'\<close>, \<^verbatim>\<open>'Program'\<close>, \<^verbatim>\<open>'BATTERY'\<close> there without a confirming query (the
  battery mode also stores the answer to \<^verbatim>\<open>:BATT:FUNC?\<close> under its own key \<^verbatim>\<open>enable\<close>).
\<close>

theorem mirror_update_sources:
  "mirrors (snd (read_write query write (Some (validator_of hp r)) v (Some d) key w)) =
     (if v \<noteq> PNone \<and> is_accepted (fst (validator_of hp r v w))
      then (mirrors w)(d := (mirrors w d)(key \<mapsto>
             instrument w (trace (snd (validator_of hp r v w)) @ [Write (write @ '' '' @ py_str v)])
               query))
      else mirrors w)
   \<and> read_write query write validator PNone value_dict key w =
       (Inr (Some (instrument w (trace w) query)), w\<lparr>trace := trace w @ [Query query]\<rparr>)
   \<and> mirrors (snd (ModeStatic_mode v w)) =
       (if v = PNone then mirrors w
        else (mirrors w)(Global_input_values := (mirrors w Global_input_values)(''mode'' \<mapsto>
               ''STATIC '' @ instrument w (butlast (trace (snd (ModeStatic_mode v w)))) '':FUNC?'')))
   \<and> mirrors (snd (ModeDynamic_mode v w)) =
       (if v = PNone then mirrors w
        else (mirrors w)(Global_input_values := (mirrors w Global_input_values)(''mode'' \<mapsto>
               ''DYNAMIC '' @ instrument w (butlast (trace (snd (ModeDynamic_mode v w))))
                 '':FUNC:TRAN?'')))
   \<and> mirrors (snd (mode_enable ModeList w)) =
       (mirrors w)(Global_input_values := (mirrors w Global_input_values)(''mode'' \<mapsto> ''LIST''))
   \<and> mirrors (snd (mode_enable ModeOCP w)) =
       (mirrors w)(Global_input_values := (mirrors w Global_input_values)(''mode'' \<mapsto> ''OCP''))
   \<and> mirrors (snd (mode_enable ModeProgram w)) =
       (mirrors w)(Global_input_values := (mirrors w Global_input_values)(''mode'' \<mapsto> ''Program''))
   \<and> mirrors (snd (mode_enable ModeBattery w)) =
       (mirrors w)
         (Global_input_values := (mirrors w Global_input_values)(''mode'' \<mapsto> ''BATTERY''),
          Mode_dict ModeBattery := (mirrors w (Mode_dict ModeBattery))(''enable'' \<mapsto>
             instrument w (trace w @ [Write '':BATT:FUNC'']) '':BATT:FUNC?''))"
proof -
  have e: "mirrors (snd (mode_enable ModeList w)) =
       (mirrors w)(Global_input_values := (mirrors w Global_input_values)(''mode'' \<mapsto> ''LIST''))"
    "mirrors (snd (mode_enable ModeOCP w)) =
       (mirrors w)(Global_input_values := (mirrors w Global_input_values)(''mode'' \<mapsto> ''OCP''))"
    "mirrors (snd (mode_enable ModeProgram w)) =
       (mirrors w)(Global_input_values := (mirrors w Global_input_values)(''mode'' \<mapsto> ''Program''))"
    "mirrors (snd (mode_enable ModeBattery w)) =
       (mirrors w)
         (Global_input_values := (mirrors w Global_input_values)(''mode'' \<mapsto> ''BATTERY''),
          Mode_dict ModeBattery := (mirrors w (Mode_dict ModeBattery))(''enable'' \<mapsto>
             instrument w (trace w @ [Write '':BATT:FUNC'']) '':BATT:FUNC?''))"
    by (simp_all add: command_write_def command_read_def split_def Let_def)
  show ?thesis
    using e read_write_rule_mirrors [of "query" "write" hp r v d key w]
      read_write_get [of "query" "write" validator value_dict key w]
      ModeStatic_mode_mirrors [of v w] ModeDynamic_mode_mirrors [of v w] mode_get_mirrors [of w]
    by simp
qed

section \<open>A validator that raises\<close>

text \<open>
  Claim C4 says that no set call lets an exception of the validation reach the caller.
  The step delay of the OCP test mode is validated by \<^verbatim>\<open>step_time\<close>, whose call of
  \<^verbatim>\<open>float_rng_and_str_tuples\<close> lacks an argument: setting the step delay to \<open>0.5\<close> raises
  \<^verbatim>\<open>TypeError\<close> out of \<^verbatim>\<open>read_write\<close>, with nothing sent, stored or printed.
\<close>

theorem step_delay_raises:
  "ModeOCP_step_delay (PFloat (Finite (1 / 2)) ''0.5'') w = (Inl RaisedTypeError, w)"
  by (simp add: ModeOCP_step_delay_def read_write_pure step_time_def
      call_float_rng_and_str_tuples_def)

section \<open>The range rule on a numeric candidate\<close>

text \<open>
  Claim C5. A numeric candidate (\<^verbatim>\<open>bool\<close>, \<^verbatim>\<open>int\<close> or \<^verbatim>\<open>float\<close>) is accepted by the range branch
  exactly when its value, rounded to the configured number of decimal places, lies in the
  closed interval from \<open>lo\<close> to \<open>hi\<close>; the string returned on acceptance is \<^verbatim>\<open>str()\<close> of the
  candidate as given, not of the rounded value; and a candidate equal to a bound that
  rounding leaves alone is accepted.
\<close>

theorem range_rule_numeric:
  assumes "is_float_or_int v"
  shows "(is_accepted (float_rng_and_str_tuples ((lo, hi), toks) v n)
            \<longleftrightarrow> (\<exists>x. py_float v = Inr (Finite x) \<and> lo \<le> py_round x n \<and> py_round x n \<le> hi))
       \<and> (is_accepted (float_rng_and_str_tuples ((lo, hi), toks) v n)
            \<longrightarrow> float_rng_and_str_tuples ((lo, hi), toks) v n = Inr (Accepted (py_str v)))
       \<and> (lo \<le> hi \<and> py_round lo n = lo \<and> py_round hi n = hi
            \<and> (py_float v = Inr (Finite lo) \<or> py_float v = Inr (Finite hi))
            \<longrightarrow> float_rng_and_str_tuples ((lo, hi), toks) v n = Inr (Accepted (py_str v)))"
proof -
  have eq: "float_rng_and_str_tuples ((lo, hi), toks) v n =
      (case py_float v of
         Inl e \<Rightarrow> Inl e
       | Inr f \<Rightarrow> if float_range (round_float f n) (lo, hi) then Inr (Accepted (py_str v))
                  else Inr (Rejected ValueError))"
    using assms by (simp add: float_rng_and_str_tuples_def Let_def split: sum.splits)
  show ?thesis
    by (cases rule: numeric_cases [OF assms]) (auto simp: eq)
qed

lemma py_round_examples:
  "py_round 0 3 = 0"
  "py_round 30 3 = 30"
  "py_round (122881 / 4096) 3 = 30"
  by code_simp+

lemma py_float_30: "py_float (PInt 30) = Inr (Finite 30)"
  by code_simp

lemma str_int_30: "str_int 30 = ''30''"
  by code_simp

text \<open>
  The integer \<open>30\<close>, the upper bound of the current rule, is accepted as \<^verbatim>\<open>'30'\<close>; the float
  \<open>30.000244140625\<close> rounds to \<open>30.0\<close> and is accepted under its own text.
\<close>

theorem range_rule_numeric_witness:
  "is_float_or_int (PInt 30)
   \<and> float_rng_and_str_tuples ((0, 30), min_max_def_tokens) (PInt 30) 3 = Inr (Accepted ''30'')
   \<and> is_float_or_int (PFloat (Finite (122881 / 4096)) ''30.000244140625'')
   \<and> float_rng_and_str_tuples ((0, 30), min_max_def_tokens)
         (PFloat (Finite (122881 / 4096)) ''30.000244140625'') 3
       = Inr (Accepted ''30.000244140625'')"
proof -
  have i: "is_float_or_int (PInt 30)" by simp
  have f: "is_float_or_int (PFloat (Finite (122881 / 4096)) ''30.000244140625'')" by simp
  note ti = range_rule_numeric [OF i, of 0 30 min_max_def_tokens 3]
  note tf = range_rule_numeric [OF f, of 0 30 min_max_def_tokens 3]
  have bounds: "(0::rat) \<le> 30" by simp
  from ti bounds py_round_examples(1,2) py_float_30
  have "float_rng_and_str_tuples ((0, 30), min_max_def_tokens) (PInt 30) 3
          = Inr (Accepted (py_str (PInt 30)))"
    by blast
  then have a: "float_rng_and_str_tuples ((0, 30), min_max_def_tokens) (PInt 30) 3
             = Inr (Accepted ''30'')"
    by (simp add: str_int_30)
  have r: "py_float (PFloat (Finite (122881 / 4096)) ''30.000244140625'')
             = Inr (Finite (122881 / 4096))
           \<and> (0::rat) \<le> py_round (122881 / 4096) 3 \<and> py_round (122881 / 4096) 3 \<le> 30"
    by (simp add: py_round_examples)
  from tf r
  have "float_rng_and_str_tuples ((0, 30), min_max_def_tokens)
         (PFloat (Finite (122881 / 4096)) ''30.000244140625'') 3
       = Inr (Accepted (py_str (PFloat (Finite (122881 / 4096)) ''30.000244140625'')))"
    by blast
  then have b: "float_rng_and_str_tuples ((0, 30), min_max_def_tokens)
         (PFloat (Finite (122881 / 4096)) ''30.000244140625'') 3
       = Inr (Accepted ''30.000244140625'')"
    by simp
  show ?thesis using i f a b by blast
qed

section \<open>The token rule on a string candidate\<close>

text \<open>
  Claim C6 says that a string is accepted exactly when it matches one of the tokens,
  whatever the case of its letters. The string \<^verbatim>\<open>'e'\<close> is no token of the static mode
  rule in any case, and is accepted as \<^verbatim>\<open>'E'\<close>.
\<close>

theorem str_tuple_accepts_non_token:
  "str_tuple [''CURRent'', ''VOLTage'', ''POWer'', ''RESistance'', ''LED''] (PStr ''e'')
     = Inr (Accepted ''E'')
   \<and> lower ''e'' \<notin> set (map lower [''CURRent'', ''VOLTage'', ''POWer'', ''RESistance'', ''LED''])"
  by (simp add: mode_static_e lower_def chr_lower_def)

text \<open>
  Claim C6 as amended. A string candidate is accepted exactly when its lower-cased form
  occurs as a contiguous run of characters in the lower-cased rendering of the token
  tuple; every token is accepted in any letter case; the canonical form returned is the
  upper-cased candidate; and two candidates that differ in case only get the same result.
\<close>

theorem str_tuple_string:
  "str_tuple ts (PStr s) =
     (if sublist (lower s) (lower (str_of_tuple ts)) then Inr (Accepted (upper s))
      else Inr (Rejected ValueError))
   \<and> (t \<in> set ts \<and> lower s = lower t \<longrightarrow> str_tuple ts (PStr s) = Inr (Accepted (upper s)))
   \<and> (lower s = lower s' \<longrightarrow> str_tuple ts (PStr s) = str_tuple ts (PStr s'))"
proof -
  have eq: "\<And>u. str_tuple ts (PStr u) =
     (if sublist (lower u) (lower (str_of_tuple ts)) then Inr (Accepted (upper u))
      else Inr (Rejected ValueError))"
    by (simp add: str_tuple_def Let_def py_in_str_sublist upper_lower)
  have tok: "t \<in> set ts \<Longrightarrow> sublist (lower t) (lower (str_of_tuple ts))"
    by (rule sublist_lower) (rule sublist_str_of_tuple)
  have up: "lower s = lower s' \<Longrightarrow> upper s = upper s'"
    by (metis upper_lower)
  show ?thesis
    using tok up by (auto simp: eq)
qed

lemma lower_on: "lower ''on'' = lower ''ON''"
  by code_simp

lemma upper_on: "upper ''on'' = ''ON''"
  by code_simp

text \<open>The token \<^verbatim>\<open>'ON'\<close> written \<^verbatim>\<open>'on'\<close> is accepted as \<^verbatim>\<open>'ON'\<close>, as \<^verbatim>\<open>'ON'\<close> itself is.\<close>

theorem str_tuple_string_witness:
  "''ON'' \<in> set [''ON'', ''OFF''] \<and> lower ''on'' = lower ''ON''
   \<and> str_tuple [''ON'', ''OFF''] (PStr ''on'') = Inr (Accepted ''ON'')
   \<and> str_tuple [''ON'', ''OFF''] (PStr ''on'') = str_tuple [''ON'', ''OFF''] (PStr ''ON'')"
proof -
  have m: "''ON'' \<in> set [''ON'', ''OFF'']" by simp
  note t = str_tuple_string [of "[''ON'', ''OFF'']" "''on''" "''ON''" "''ON''"]
  from t m lower_on
  have "str_tuple [''ON'', ''OFF''] (PStr ''on'') = Inr (Accepted (upper ''on''))" by blast
  then have a: "str_tuple [''ON'', ''OFF''] (PStr ''on'') = Inr (Accepted ''ON'')"
    by (simp add: upper_on)
  from t lower_on
  have b: "str_tuple [''ON'', ''OFF''] (PStr ''on'') = str_tuple [''ON'', ''OFF''] (PStr ''ON'')"
    by blast
  show ?thesis using m lower_on a b by blast
qed

section \<open>The token branch accepts what is not a token\<close>

text \<open>
  Claim C7. The token branch accepts a string exactly when its lower-cased form occurs in
  the lower-cased \<^verbatim>\<open>str()\<close> of the whole token tuple. So \<^verbatim>\<open>'ont'\<close>, a fragment of the token
  \<^verbatim>\<open>'CONTinuous'\<close>, and \<^verbatim>\<open>s', 'P\<close>, which spans the separator between two tokens, are accepted
  by the pulse mode rule and canonicalized to their upper-cased form, although neither is
  a token in any case; and \<^verbatim>\<open>pulse_mode\<close> then sends the write with the candidate as given.
\<close>

theorem token_branch_substring:
  "is_accepted (str_tuple ts (PStr s)) = py_in_str (lower s) (lower (str_of_tuple ts))
   \<and> mode_transient (PStr ''ont'') = Inr (Accepted ''ONT'')
   \<and> lower ''ont'' \<notin> set (map lower [''CONTinuous'', ''PULSe'', ''TOGGle''])
   \<and> mode_transient (PStr ''s', 'P'') = Inr (Accepted ''S', 'P'')
   \<and> lower ''s', 'P'' \<notin> set (map lower [''CONTinuous'', ''PULSe'', ''TOGGle''])
   \<and> writes (trace (snd (pulse_mode (PStr ''ont'') w)))
       = writes (trace w) @ [Write '':CURR:TRAN:MODE ont'']
   \<and> writes (trace (snd (pulse_mode (PStr ''s', 'P'') w)))
       = writes (trace w) @ [Write '':CURR:TRAN:MODE s', 'P'']"
proof -
  have a: "is_accepted (str_tuple ts (PStr s)) = py_in_str (lower s) (lower (str_of_tuple ts))"
    by (simp add: str_tuple_def Let_def)
  have b: "lower ''ont'' \<notin> set (map lower [''CONTinuous'', ''PULSe'', ''TOGGle''])"
    by (simp add: lower_def chr_lower_def)
  have c: "lower ''s', 'P'' \<notin> set (map lower [''CONTinuous'', ''PULSe'', ''TOGGle''])"
    by (simp add: lower_def chr_lower_def)
  have d: "writes (trace (snd (pulse_mode (PStr ''ont'') w)))
       = writes (trace w) @ [Write '':CURR:TRAN:MODE ont'']"
    by (simp add: pulse_mode_def read_write_def pure_validator_def mode_transient_ont
        store_query_def split_def)
  have e: "writes (trace (snd (pulse_mode (PStr ''s', 'P'') w)))
       = writes (trace w) @ [Write '':CURR:TRAN:MODE s', 'P'']"
    by (simp add: pulse_mode_def read_write_def pure_validator_def mode_transient_span
        store_query_def split_def)
  show ?thesis
    using a b c d e mode_transient_ont mode_transient_span by blast
qed

section \<open>The bounds of the battery level\<close>

text \<open>
  Claim C8 says that the battery level is validated against \<open>[0, 30]\<close> when the sub-mode
  queried is current. \<^verbatim>\<open>battery_level\<close> does query the sub-mode, and compares the answer with
  \<^verbatim>\<open>is\<close>, which no answer satisfies: the bounds are always those of the resistance. With the
  instrument answering \<^verbatim>\<open>CURRENT\<close>, the level \<open>100.0\<close> is accepted and sent, and the level
  \<open>0.015625\<close> is rejected.
\<close>

theorem battery_level_ignores_sub_mode:
  "fst (bus_query '':BATT:MODE?'' battery_world) = ''CURRENT''
   \<and> fst (battery_level (PFloat (Finite 100) ''100.0'') battery_world) = Inr (Accepted ''100.0'')
   \<and> trace (snd (ModeBattery_level (PFloat (Finite 100) ''100.0'') battery_world))
       = [Query '':BATT:MODE?'', Write '':BATT:LEV 100.0'', Query '':BATT:LEV?'']
   \<and> fst (battery_level (PFloat (Finite (1 / 64)) ''0.015625'') battery_world)
       = Inr (Rejected ValueError)
   \<and> trace (snd (ModeBattery_level (PFloat (Finite (1 / 64)) ''0.015625'') battery_world))
       = [Query '':BATT:MODE?'']"
  by (simp add: battery_level_bounds float_rng_tuple_100 float_rng_tuple_64th ModeBattery_level_def
      read_write_def store_query_def split_def battery_world_def current_instrument_def)

section \<open>\<^verbatim>\<open>on()\<close> enables the mode, then switches the input on\<close>

text \<open>
  Claim C9. For each of the fourteen mode classes, \<^verbatim>\<open>on()\<close> first runs the mode's \<^verbatim>\<open>enable()\<close>,
  which sends the function-select line and sets the shared active-function entry, and
  then sends the input-on line: the writes of an \<^verbatim>\<open>on()\<close> call are exactly these two, in
  this order, and neither call raises.
\<close>

theorem on_is_enable_then_input_on:
  "fst (mode_enable m w) = Inr ()
   \<and> mode_on m w = discard (input_control (PStr ''ON'') (snd (mode_enable m w)))
   \<and> fst (mode_on m w) = Inr ()
   \<and> writes (trace (snd (mode_enable m w))) = writes (trace w) @ [Write (function_select m)]
   \<and> mirrors (snd (mode_enable m w)) Global_input_values ''mode'' \<noteq> None
   \<and> writes (trace (snd (mode_on m w)))
       = writes (trace w) @ [Write (function_select m), Write '':INP ON'']"
  by (simp add: mode_enable_ok mode_on_unfold mode_enable_writes mode_enable_mirror
      input_control_on)

section \<open>\<^verbatim>\<open>set_a_and_b\<close> is not transactional\<close>

text \<open>
  Claim C10. \<^verbatim>\<open>set_a_and_b\<close> runs the Dispatcher for the A level, the B level, the A width
  and the B width, in this order and one independent of the other. When the A level is
  accepted and the B level is rejected, the write of the A level and the query after it
  have been sent and stay: afterwards the mirror holds the instrument's answer for
  \<^verbatim>\<open>a_level\<close> and the old value of \<^verbatim>\<open>b_level\<close>; and accepted widths are still written after the
  rejected B level.
\<close>

theorem set_a_and_b_not_transactional:
  assumes "current a = Inr (Accepted ca)" and "current b = Inr (Rejected err)"
  shows "mirrors (snd (set_a_and_b a b wa wb w)) (Mode_dict ModeDynamicCC) ''a_level''
           = Some (instrument w (trace w @ [Write ('':CURR:TRAN:ALEV '' @ py_str a)]) '':CURR:TRAN:ALEV?'')
       \<and> mirrors (snd (set_a_and_b a b wa wb w)) (Mode_dict ModeDynamicCC) ''b_level''
           = mirrors w (Mode_dict ModeDynamicCC) ''b_level''
       \<and> prefix (trace w @ [Write ('':CURR:TRAN:ALEV '' @ py_str a), Query '':CURR:TRAN:ALEV?''])
           (trace (snd (set_a_and_b a b wa wb w)))
       \<and> (b \<noteq> PNone \<and> is_accepted (pulse_width wa) \<and> is_accepted (pulse_width wb) \<longrightarrow>
            writes (trace (snd (set_a_and_b a b wa wb w)))
              = writes (trace w) @ [Write ('':CURR:TRAN:ALEV '' @ py_str a),
                                    Write ('':CURR:TRAN:AWID '' @ py_str wa),
                                    Write ('':CURR:TRAN:BWID '' @ py_str wb)])"
proof -
  have an: "a \<noteq> PNone" using assms(1) by (auto simp: current_def float_rng_and_str_tuples_def)
  define w1 where "w1 = dict_set (Mode_dict ModeDynamicCC) ''a_level''
      (instrument w (trace w @ [Write ('':CURR:TRAN:ALEV '' @ py_str a)]) '':CURR:TRAN:ALEV?'')
      (snd (bus_query '':CURR:TRAN:ALEV?'' (bus_write ('':CURR:TRAN:ALEV '' @ py_str a) w)))"
  have a1: "a_level a w = (Inr None, w1)"
    using an assms(1) by (simp add: a_level_def read_write_pure w1_def)
  define w2 where "w2 = snd (b_level b w1)"
  have b_ok: "fst (b_level b w1) = Inr (if b = PNone then Some (instrument w1 (trace w1) '':CURR:TRAN:BLEV?'') else None)"
    using assms(2) by (simp add: b_level_def read_write_pure)
  have b2: "b_level b w1 = (Inr (if b = PNone then Some (instrument w1 (trace w1) '':CURR:TRAN:BLEV?'') else None), w2)"
    using b_ok by (simp add: w2_def prod_eq_iff)
  have w2_m: "mirrors w2 = mirrors w1"
    using assms(2) by (simp add: w2_def b_level_def read_write_pure)
  have w2_t: "prefix (trace w1) (trace w2)"
    unfolding w2_def b_level_def by (rule read_write_pure_trace)
  have w2_w: "b \<noteq> PNone \<Longrightarrow> trace w2 = trace w1"
    using assms(2) by (simp add: w2_def b_level_def read_write_pure)
  define w3 where "w3 = snd (a_width wa w2)"
  define w4 where "w4 = snd (b_width wb w3)"
  have w3_m: "\<And>k. k \<noteq> ''a_width'' \<Longrightarrow> mirrors w3 (Mode_dict ModeDynamicCC) k = mirrors w2 (Mode_dict ModeDynamicCC) k"
    unfolding w3_def a_width_def by (rule read_write_pure_other_key) simp
  have w4_m: "\<And>k. k \<noteq> ''b_width'' \<Longrightarrow> mirrors w4 (Mode_dict ModeDynamicCC) k = mirrors w3 (Mode_dict ModeDynamicCC) k"
    unfolding w4_def b_width_def by (rule read_write_pure_other_key) simp
  have w3_t: "prefix (trace w2) (trace w3)"
    unfolding w3_def a_width_def by (rule read_write_pure_trace)
  have w4_t: "prefix (trace w3) (trace w4)"
    unfolding w4_def b_width_def by (rule read_write_pure_trace)
  have fin: "snd (set_a_and_b a b wa wb w) = w3 \<or> snd (set_a_and_b a b wa wb w) = w4"
    by (cases "a_width wa w2"; cases "b_width wb w3")
      (auto simp: set_a_and_b_def a1 b2 w3_def w4_def discard_def split: sum.splits)
  have m3: "mirrors w3 (Mode_dict ModeDynamicCC) ''a_level'' = mirrors w1 (Mode_dict ModeDynamicCC) ''a_level''"
    "mirrors w3 (Mode_dict ModeDynamicCC) ''b_level'' = mirrors w1 (Mode_dict ModeDynamicCC) ''b_level''"
    by (simp_all add: w3_m w2_m)
  have m4: "mirrors w4 (Mode_dict ModeDynamicCC) ''a_level'' = mirrors w1 (Mode_dict ModeDynamicCC) ''a_level''"
    "mirrors w4 (Mode_dict ModeDynamicCC) ''b_level'' = mirrors w1 (Mode_dict ModeDynamicCC) ''b_level''"
    by (simp_all add: w4_m m3)
  have m1: "mirrors w1 (Mode_dict ModeDynamicCC) ''a_level''
      = Some (instrument w (trace w @ [Write ('':CURR:TRAN:ALEV '' @ py_str a)]) '':CURR:TRAN:ALEV?'')"
    "mirrors w1 (Mode_dict ModeDynamicCC) ''b_level'' = mirrors w (Mode_dict ModeDynamicCC) ''b_level''"
    by (simp_all add: w1_def)
  have t1: "trace w1 = trace w @ [Write ('':CURR:TRAN:ALEV '' @ py_str a), Query '':CURR:TRAN:ALEV?'']"
    by (simp add: w1_def)
  have p3: "prefix (trace w1) (trace w3)" using w2_t w3_t by (rule prefix_order.trans)
  have p4: "prefix (trace w1) (trace w4)" using p3 w4_t by (rule prefix_order.trans)
  have c1: "mirrors (snd (set_a_and_b a b wa wb w)) (Mode_dict ModeDynamicCC) ''a_level''
           = Some (instrument w (trace w @ [Write ('':CURR:TRAN:ALEV '' @ py_str a)]) '':CURR:TRAN:ALEV?'')"
    using fin m3 m4 m1 by auto
  have c2: "mirrors (snd (set_a_and_b a b wa wb w)) (Mode_dict ModeDynamicCC) ''b_level''
           = mirrors w (Mode_dict ModeDynamicCC) ''b_level''"
    using fin m3 m4 m1 by auto
  have c3: "prefix (trace w @ [Write ('':CURR:TRAN:ALEV '' @ py_str a), Query '':CURR:TRAN:ALEV?''])
           (trace (snd (set_a_and_b a b wa wb w)))"
    using fin p3 p4 t1 by auto
  have c4: "writes (trace (snd (set_a_and_b a b wa wb w)))
              = writes (trace w) @ [Write ('':CURR:TRAN:ALEV '' @ py_str a),
                                    Write ('':CURR:TRAN:AWID '' @ py_str wa),
                                    Write ('':CURR:TRAN:BWID '' @ py_str wb)]"
    if bn: "b \<noteq> PNone" and pa: "is_accepted (pulse_width wa)"
      and pb: "is_accepted (pulse_width wb)"
  proof -
    obtain sa where sa: "pulse_width wa = Inr (Accepted sa)"
      using pa by (cases "pulse_width wa" rule: is_accepted.cases) auto
    obtain sb where sb: "pulse_width wb = Inr (Accepted sb)"
      using pb by (cases "pulse_width wb" rule: is_accepted.cases) auto
    have wan: "wa \<noteq> PNone" using sa by (auto simp: pulse_width_def float_rng_and_str_tuples_def)
    have wbn: "wb \<noteq> PNone" using sb by (auto simp: pulse_width_def float_rng_and_str_tuples_def)
    have "set_a_and_b a b wa wb w = (Inr (), w4)"
      using wan wbn sa sb
      by (simp add: set_a_and_b_def a1 b2 w3_def w4_def a_width_def b_width_def read_write_pure)
    moreover have "writes (trace w4) = writes (trace w2) @
        [Write ('':CURR:TRAN:AWID '' @ py_str wa), Write ('':CURR:TRAN:BWID '' @ py_str wb)]"
      using wan wbn sa sb
      by (simp add: w3_def w4_def a_width_def b_width_def read_write_pure)
    ultimately show ?thesis using w2_w [OF bn] t1 by simp
  qed
  show ?thesis using c1 c2 c3 c4 by blast
qed

lemma current_2: "current (PInt 2) = Inr (Accepted ''2'')"
  by code_simp

lemma str_int_2: "str_int 2 = ''2''"
  by code_simp

text \<open>
  A level \<open>2\<close>, B level \<open>35.0\<close>, no widths, on the example instrument: the mirror holds the
  answer \<open>0\<close> for \<^verbatim>\<open>a_level\<close> and still nothing for \<^verbatim>\<open>b_level\<close>.
\<close>

theorem set_a_and_b_not_transactional_witness:
  "current (PInt 2) = Inr (Accepted ''2'')
   \<and> current (PFloat (Finite 35) ''35.0'') = Inr (Rejected ValueError)
   \<and> mirrors (snd (set_a_and_b (PInt 2) (PFloat (Finite 35) ''35.0'') PNone PNone demo_world))
        (Mode_dict ModeDynamicCC) ''a_level'' = Some ''0''
   \<and> mirrors (snd (set_a_and_b (PInt 2) (PFloat (Finite 35) ''35.0'') PNone PNone demo_world))
        (Mode_dict ModeDynamicCC) ''b_level'' = None
   \<and> prefix [Write '':CURR:TRAN:ALEV 2'', Query '':CURR:TRAN:ALEV?'']
        (trace (snd (set_a_and_b (PInt 2) (PFloat (Finite 35) ''35.0'') PNone PNone demo_world)))"
  using set_a_and_b_not_transactional [OF current_2 current_35, of PNone PNone demo_world]
    current_2 current_35
  by (simp add: str_int_2 demo_world_def demo_instrument_def)

end
